theory Spec2Isabelle
  imports Complex_Main "HOL-Library.Code_Target_Numeral"
begin

section \<open>JavaScript numbers as token-pulse uses them\<close>

text \<open>
  A JavaScript number is a finite value, one of the two infinities, or NaN. A finite value is
  modelled by the real number it denotes; the operations that compute one round their result
  (next section). The upstream fields of a pair are read from JSON
  and follow the upstream's schema: a numeric field or an object field that is absent or null
  is \<open>None\<close> (the source reads both through \<open>||\<close> and \<open>?.\<close>, which treat the two alike).
\<close>

datatype jsnum = Num real | PosInfinity | NegInfinity | NaN

text \<open>Truthiness of a number: \<open>0\<close> and \<open>NaN\<close> are falsy.\<close>

fun truthy :: "jsnum \<Rightarrow> bool" where
  "truthy (Num x) = (x \<noteq> 0)"
| "truthy PosInfinity = True"
| "truthy NegInfinity = True"
| "truthy NaN = False"

text \<open>\<open>a || b\<close> where \<open>a\<close> and \<open>b\<close> are numeric fields that may be undefined.\<close>

definition or_else :: "jsnum option \<Rightarrow> jsnum option \<Rightarrow> jsnum option" where
  "or_else a b = (case a of None \<Rightarrow> b | Some x \<Rightarrow> if truthy x then Some x else b)"

text \<open>\<open>a || d\<close> where \<open>d\<close> is a number (the final \<open>|| 0\<close> of the source).\<close>

definition or_default :: "jsnum option \<Rightarrow> jsnum \<Rightarrow> jsnum" where
  "or_default a d = (case a of None \<Rightarrow> d | Some x \<Rightarrow> if truthy x then x else d)"

text \<open>Optional chaining \<open>obj?.field\<close>: undefined when \<open>obj\<close> is undefined or null.\<close>

definition opt_chain :: "'a option \<Rightarrow> ('a \<Rightarrow> 'b option) \<Rightarrow> 'b option" where
  "opt_chain obj field = (case obj of None \<Rightarrow> None | Some v \<Rightarrow> field v)"

text \<open>The relational operators: every comparison with NaN is false.\<close>

fun js_lt :: "jsnum \<Rightarrow> jsnum \<Rightarrow> bool" where
  "js_lt NaN y = False"
| "js_lt x NaN = False"
| "js_lt (Num a) (Num b) = (a < b)"
| "js_lt (Num a) PosInfinity = True"
| "js_lt (Num a) NegInfinity = False"
| "js_lt PosInfinity y = False"
| "js_lt NegInfinity NegInfinity = False"
| "js_lt NegInfinity y = True"

definition js_gt :: "jsnum \<Rightarrow> jsnum \<Rightarrow> bool" where
  "js_gt a b = js_lt b a"

definition js_ge :: "jsnum \<Rightarrow> jsnum \<Rightarrow> bool" where
  "js_ge a b = (a \<noteq> NaN \<and> b \<noteq> NaN \<and> \<not> js_lt a b)"

section \<open>Binary64 arithmetic\<close>

text \<open>
  A finite JavaScript number is an IEEE-754 binary64 value, and every arithmetic operation and
  every decimal literal is rounded to the nearest such value, ties to the even significand.
  \<open>round64\<close> is that rounding of an exact real: within the binade \<open>2^e \<le> |x| < 2^(e+1)\<close>
  the representable values are the multiples of \<open>2^(e-52)\<close>; below \<open>2^-1022\<close> (the subnormal
  range) they are the multiples of \<open>2^-1074\<close>; a result of magnitude \<open>2^1024\<close> or more
  overflows to an infinity. The sign of zero is not modelled.
\<close>

definition pow2 :: "int \<Rightarrow> real" where
  "pow2 k = (if 0 \<le> k then 2 ^ nat k else 1 / 2 ^ nat (- k))"

text \<open>The number of binary digits of a natural number.\<close>

fun bits :: "nat \<Rightarrow> nat" where
  "bits n = (if n = 0 then 0 else Suc (bits (n div 2)))"

declare bits.simps [simp del]

text \<open>The exponent \<open>e\<close> with \<open>2^e \<le> a < 2^(e+1)\<close>, for \<open>a > 0\<close>.\<close>

definition binade :: "real \<Rightarrow> int" where
  "binade a =
     (if 1 \<le> a then int (bits (nat \<lfloor>a\<rfloor>)) - 1
      else - int (bits (nat \<lceil>1 / a\<rceil> - 1)))"

text \<open>The nearest integer, the even one on a tie.\<close>

definition nearest_even :: "real \<Rightarrow> int" where
  "nearest_even q =
     (if q - of_int \<lfloor>q\<rfloor> < 1 / 2 then \<lfloor>q\<rfloor>
      else if 1 / 2 < q - of_int \<lfloor>q\<rfloor> then \<lfloor>q\<rfloor> + 1
      else if even \<lfloor>q\<rfloor> then \<lfloor>q\<rfloor> else \<lfloor>q\<rfloor> + 1)"

text \<open>The nearest multiple of \<open>ulp\<close>.\<close>

definition quantize :: "real \<Rightarrow> real \<Rightarrow> real" where
  "quantize a ulp = of_int (nearest_even (a / ulp)) * ulp"

text \<open>The rounded magnitude \<open>r\<close> with the sign of \<open>x\<close>, or the infinity it overflows to.\<close>

definition signed :: "real \<Rightarrow> real \<Rightarrow> jsnum" where
  "signed x r =
     (if 2 ^ 1024 \<le> r then (if x < 0 then NegInfinity else PosInfinity)
      else Num (if x < 0 then - r else r))"

definition round64 :: "real \<Rightarrow> jsnum" where
  "round64 x =
     (if x = 0 then Num 0
      else signed x (quantize \<bar>x\<bar> (pow2 (max (binade \<bar>x\<bar>) (- 1022) - 52))))"

text \<open>Addition of numbers.\<close>

fun js_add :: "jsnum \<Rightarrow> jsnum \<Rightarrow> jsnum" where
  "js_add NaN y = NaN"
| "js_add x NaN = NaN"
| "js_add (Num a) (Num b) = round64 (a + b)"
| "js_add (Num a) y = y"
| "js_add PosInfinity NegInfinity = NaN"
| "js_add NegInfinity PosInfinity = NaN"
| "js_add x y = x"

text \<open>
  Division of numbers. Dividing by zero does not raise in JavaScript: it yields an infinity,
  or NaN for \<open>0 / 0\<close>.
\<close>

fun js_div :: "jsnum \<Rightarrow> jsnum \<Rightarrow> jsnum" where
  "js_div NaN y = NaN"
| "js_div x NaN = NaN"
| "js_div (Num a) (Num b) =
     (if b \<noteq> 0 then round64 (a / b)
      else if a = 0 then NaN
      else if 0 < a then PosInfinity else NegInfinity)"
| "js_div (Num a) y = Num 0"
| "js_div PosInfinity (Num b) = (if b < 0 then NegInfinity else PosInfinity)"
| "js_div NegInfinity (Num b) = (if b < 0 then PosInfinity else NegInfinity)"
| "js_div x y = NaN"

section \<open>Strings\<close>

text \<open>
  A JavaScript string is a sequence of UTF-16 code units, modelled as a list of numbers;
  \<open>length\<close>, \<open>slice\<close> and \<open>split\<close> count code units. \<open>str\<close> gives the code units of an
  ASCII literal. A text field of a JSON object is undefined (absent), null, or a string.
\<close>

type_synonym jsstring = "nat list"

primrec str :: "string \<Rightarrow> jsstring" where
  "str [] = []"
| "str (c # cs) = of_char c # str cs"

declare str.simps [simp del]

datatype jstext = Undefined | Null | Text jsstring

text \<open>Optional chaining \<open>obj?.field\<close> on a text field.\<close>

definition opt_text :: "'a option \<Rightarrow> ('a \<Rightarrow> jstext) \<Rightarrow> jstext" where
  "opt_text obj field = (case obj of None \<Rightarrow> Undefined | Some v \<Rightarrow> field v)"

text \<open>The decimal digits of a natural number, as a template literal renders an integer.\<close>

fun dec :: "nat \<Rightarrow> jsstring" where
  "dec n = (if n < 10 then [48 + n] else dec (n div 10) @ [48 + n mod 10])"

declare dec.simps [simp del]

text \<open>
  \<open>toUpperCase\<close>, on the letters a to z; the source applies it to the pulse labels only.
\<close>

definition upper_unit :: "nat \<Rightarrow> nat" where
  "upper_unit c = (if 97 \<le> c \<and> c \<le> 122 then c - 32 else c)"

definition toUpperCase :: "jsstring \<Rightarrow> jsstring" where
  "toUpperCase s = map upper_unit s"

definition em_dash :: jsstring where
  "em_dash = [0x2014]"

text \<open>The white space and line terminators that \<open>trim\<close> removes.\<close>

definition is_space :: "nat \<Rightarrow> bool" where
  "is_space c =
     (c \<in> set [0x09, 0x0A, 0x0B, 0x0C, 0x0D, 0x20, 0xA0, 0x1680,
                0x2000, 0x2001, 0x2002, 0x2003, 0x2004, 0x2005, 0x2006, 0x2007, 0x2008,
                0x2009, 0x200A, 0x2028, 0x2029, 0x202F, 0x205F, 0x3000, 0xFEFF])"

definition trim :: "jsstring \<Rightarrow> jsstring" where
  "trim s = rev (dropWhile is_space (rev (dropWhile is_space s)))"

text \<open>\<open>s.split(',')\<close>: an empty string gives one empty piece.\<close>

fun split_comma :: "jsstring \<Rightarrow> jsstring list" where
  "split_comma [] = [[]]"
| "split_comma (c # cs) =
     (if c = 44 then [] # split_comma cs
      else (case split_comma cs of
              [] \<Rightarrow> [[c]]
            | w # ws \<Rightarrow> (c # w) # ws))"

section \<open>The upstream pair\<close>

text \<open>
  The fields of an upstream pair object that the program reads. Every field may be absent;
  \<open>volume\<close>, \<open>priceChange\<close> and \<open>txns\<close> are objects with an \<open>h24\<close> field. The text fields
  keep undefined and null apart, since a template literal renders them differently.
\<close>

record 'a windowed =
  h24 :: "'a option"

record txn_counts =
  buys :: "jsnum option"
  sells :: "jsnum option"

record liquidity_info =
  usd :: "jsnum option"

record token =
  name :: jstext
  symbol :: jstext

record dex_pair =
  volume :: "jsnum windowed option"
  marketCap :: "jsnum option"
  fdv :: "jsnum option"
  priceChange :: "jsnum windowed option"
  txns :: "txn_counts windowed option"
  liquidity :: "liquidity_info option"
  priceUsd :: jstext
  baseToken :: "token option"
  dexId :: jstext
  chainId :: jstext
  url :: jstext

section \<open>calculatePulse\<close>

datatype pulse = Strong | Stable | Weak | Critical | Dead | Error

text \<open>
  The locals of \<open>calculatePulse\<close>, each under the name the source gives it. The literals
  \<open>0.1\<close> and \<open>0.01\<close> are the binary64 values nearest to those decimals; the other literals
  are integers, which binary64 holds exactly.
\<close>

definition vol24h :: "dex_pair \<Rightarrow> jsnum" where
  "vol24h pair = or_default (opt_chain (volume pair) h24) (Num 0)"

definition mcap_of :: "dex_pair \<Rightarrow> jsnum" where
  "mcap_of pair = or_default (or_else (marketCap pair) (fdv pair)) (Num 0)"

definition change24h_of :: "dex_pair \<Rightarrow> jsnum" where
  "change24h_of pair = or_default (opt_chain (priceChange pair) h24) (Num 0)"

definition txns24h_of :: "dex_pair \<Rightarrow> jsnum" where
  "txns24h_of pair =
     js_add (or_default (opt_chain (opt_chain (txns pair) h24) buys) (Num 0))
            (or_default (opt_chain (opt_chain (txns pair) h24) sells) (Num 0))"

definition volRatio :: "dex_pair \<Rightarrow> jsnum" where
  "volRatio pair =
     (if js_gt (mcap_of pair) (Num 0) then js_div (vol24h pair) (mcap_of pair) else Num 0)"

definition score_of :: "dex_pair \<Rightarrow> int" where
  "score_of pair =
     (let score = 0;
          score = (if js_gt (vol24h pair) (Num 10000) then score + 3
                   else if js_gt (vol24h pair) (Num 1000) then score + 2
                   else if js_gt (vol24h pair) (Num 100) then score + 1
                   else score);
          score = (if js_gt (txns24h_of pair) (Num 50) then score + 2
                   else if js_gt (txns24h_of pair) (Num 10) then score + 1
                   else score);
          score = (if js_gt (volRatio pair) (round64 (1 / 10)) then score + 2
                   else if js_gt (volRatio pair) (round64 (1 / 100)) then score + 1
                   else score);
          score = (if js_gt (change24h_of pair) (Num 20) then score + 1 else score);
          score = (if js_lt (change24h_of pair) (Num (- 50)) then score - 2 else score)
      in score)"

definition calculatePulse :: "dex_pair option \<Rightarrow> pulse" where
  "calculatePulse p =
     (case p of
        None \<Rightarrow> Dead
      | Some pair \<Rightarrow>
          (let score = score_of pair in
           if score \<ge> 6 then Strong
           else if score \<ge> 4 then Stable
           else if score \<ge> 2 then Weak
           else if score \<ge> 0 then Critical
           else Dead))"



text \<open>The pair of the specification's scoring scenario; the fields it does not name are absent.\<close>

definition scenario_pair :: dex_pair where
  "scenario_pair =
     \<lparr>volume = Some \<lparr>h24 = Some (Num 15000)\<rparr>,
      marketCap = Some (Num 50000),
      fdv = None,
      priceChange = Some \<lparr>h24 = Some (Num 25)\<rparr>,
      txns = Some \<lparr>h24 = Some \<lparr>buys = Some (Num 30), sells = Some (Num 30)\<rparr>\<rparr>,
      liquidity = None, priceUsd = Undefined, baseToken = None,
      dexId = Undefined, chainId = Undefined, url = Undefined\<rparr>"

section \<open>Errors, promises and the platform\<close>

text \<open>
  A thrown error or a rejected promise is the left summand; only its message is read. The
  message of a \<open>TypeError\<close> is the engine's own wording (here V8's).
\<close>

datatype js_error = JsError jsstring

fun err_message :: "js_error \<Rightarrow> jsstring" where
  "err_message (JsError m) = m"

text \<open>
  A list of settled computations, in order: the first failure, or every value. It models a
  throwing callback under \<open>Array.map\<close>, and \<open>Promise.all\<close>: there, when several promises
  reject, JavaScript rejects with the one that settles first, and the model takes the first
  in input order.
\<close>

fun collect :: "(js_error + 'a) list \<Rightarrow> js_error + 'a list" where
  "collect [] = Inr []"
| "collect (Inl e # ps) = Inl e"
| "collect (Inr v # ps) = (case collect ps of Inl e \<Rightarrow> Inl e | Inr vs \<Rightarrow> Inr (v # vs))"

definition Promise_all :: "(js_error + 'a) list \<Rightarrow> js_error + 'a list" where
  "Promise_all ps = collect ps"

text \<open>
  What the upstream answers to one GET: the request fails (a network failure, with the
  platform's message), or a response arrives with a status code and a body. Parsing the body
  as JSON fails with a message, or gives an object whose \<open>pairs\<close> field may be absent.
\<close>

datatype json_body = BadJson jsstring | Json "dex_pair list option"

datatype fetch_outcome = NetworkFailure jsstring | Response nat json_body

text \<open>
  The platform the code runs on: the upstream behind \<open>fetch\<close> (by URL), the built-in
  \<open>parseFloat\<close> (applied to a text field as it is), the built-in conversion of a
  finite number of magnitude at least \<open>10^21\<close> to a string (exponential notation), and the
  clock reading \<open>new Date().toISOString()\<close>.
\<close>

record platform =
  fetch :: "jsstring \<Rightarrow> fetch_outcome"
  parseFloat :: "jstext \<Rightarrow> jsnum"
  numberToString :: "real \<Rightarrow> jsstring"
  now :: jsstring

definition DEXSCREENER_API :: jsstring where
  "DEXSCREENER_API = str ''https://api.dexscreener.com/latest/dex/tokens''"

definition fetchTokenData :: "platform \<Rightarrow> jsstring \<Rightarrow> js_error + dex_pair list" where
  "fetchTokenData h address =
     (case fetch h (DEXSCREENER_API @ str ''/'' @ address) of
        NetworkFailure m \<Rightarrow> Inl (JsError m)
      | Response status_code data \<Rightarrow>
          if \<not> (200 \<le> status_code \<and> status_code \<le> 299)
          then Inl (JsError ((str ''Dexscreener API error: '') @ dec status_code))
          else (case data of
                  BadJson m \<Rightarrow> Inl (JsError m)
                | Json pairs \<Rightarrow> Inr (case pairs of None \<Rightarrow> [] | Some ps \<Rightarrow> ps)))"

section \<open>getPulse and getBatchPulse\<close>

text \<open>\<open>Array.prototype.reduce\<close> with an initial value.\<close>

fun reduce :: "('b \<Rightarrow> 'a \<Rightarrow> 'b) \<Rightarrow> 'a list \<Rightarrow> 'b \<Rightarrow> 'b" where
  "reduce f [] acc = acc"
| "reduce f (x # xs) acc = reduce f xs (f acc x)"

text \<open>The callback of the reduce in \<open>getPulse\<close>.\<close>

definition better :: "dex_pair \<Rightarrow> dex_pair \<Rightarrow> dex_pair" where
  "better best pair =
     (if js_gt (or_default (opt_chain (volume pair) h24) (Num 0))
               (or_default (opt_chain (volume best) h24) (Num 0))
      then pair else best)"

text \<open>
  The local \<open>mainPair\<close> of \<open>getPulse\<close>: the reduce over all pairs, starting from
  \<open>pairs[0]\<close>, which is undefined for an empty list.
\<close>

definition mainPair :: "dex_pair list \<Rightarrow> dex_pair option" where
  "mainPair pairs =
     (case pairs of [] \<Rightarrow> None | first # rest \<Rightarrow> Some (reduce better pairs first))"

record stats =
  price :: jsnum
  mcap :: jsnum
  volume24h :: jsnum
  change24h :: jsnum
  txns24h :: jsnum
  stats_liquidity :: jsnum

record pair_info =
  dex :: jstext
  chain :: jstext
  pair_url :: jstext

text \<open>The result object; a field the object does not have is \<open>None\<close>.\<close>

record pulse_result =
  address :: jsstring
  found :: bool
  pulse :: pulse
  message :: "jsstring option"
  error :: "jsstring option"
  token :: "token option"
  stats :: "stats option"
  pair :: "pair_info option"
  pairCount :: "nat option"
  timestamp :: "jsstring option"

definition getPulse :: "platform \<Rightarrow> jsstring \<Rightarrow> js_error + pulse_result" where
  "getPulse h addr =
     (case fetchTokenData h addr of
        Inl e \<Rightarrow> Inl e
      | Inr pairs \<Rightarrow>
          if length pairs = 0
          then Inr \<lparr>address = addr, found = False, pulse = Dead,
                     message = Some (str ''No trading pairs found''), error = None,
                     token = None, stats = None, pair = None,
                     pairCount = None, timestamp = None\<rparr>
          else (case mainPair pairs of
                  None \<Rightarrow>
                    Inl (JsError (str ''Cannot read properties of undefined (reading '' @ [39]
                           @ str ''baseToken'' @ [39] @ str '')''))
                | Some main \<Rightarrow>
                    Inr \<lparr>address = addr, found = True,
                         pulse = calculatePulse (Some main),
                         message = None, error = None,
                         token = Some \<lparr>name = opt_text (baseToken main) name,
                                        symbol = opt_text (baseToken main) symbol\<rparr>,
                         stats = Some
                           \<lparr>price = or_default (Some (parseFloat h (priceUsd main))) (Num 0),
                            mcap = or_default (or_else (marketCap main) (fdv main)) (Num 0),
                            volume24h = or_default (opt_chain (volume main) h24) (Num 0),
                            change24h = or_default (opt_chain (priceChange main) h24) (Num 0),
                            txns24h =
                              js_add
                                (or_default (opt_chain (opt_chain (txns main) h24) buys) (Num 0))
                                (or_default (opt_chain (opt_chain (txns main) h24) sells) (Num 0)),
                            stats_liquidity = or_default (opt_chain (liquidity main) usd) (Num 0)\<rparr>,
                         pair = Some \<lparr>dex = dexId main, chain = chainId main,
                                       pair_url = url main\<rparr>,
                         pairCount = Some (length pairs),
                         timestamp = Some (now h)\<rparr>))"

text \<open>The result that the \<open>catch\<close> of \<open>getBatchPulse\<close> builds from a failure.\<close>

definition error_result :: "jsstring \<Rightarrow> js_error \<Rightarrow> pulse_result" where
  "error_result addr err =
     \<lparr>address = addr, found = False, pulse = Error,
      message = None, error = Some (err_message err),
      token = None, stats = None, pair = None, pairCount = None, timestamp = None\<rparr>"

definition getBatchPulse :: "platform \<Rightarrow> jsstring list \<Rightarrow> js_error + pulse_result list" where
  "getBatchPulse h addresses =
     Promise_all
       (map (\<lambda>addr. case getPulse h addr of
                       Inl err \<Rightarrow> Inr (error_result addr err)
                     | Inr r \<Rightarrow> Inr r)
            addresses)"

section \<open>formatPulseSummary\<close>

text \<open>
  \<open>Number.prototype.toFixed\<close> with \<open>f\<close> fraction digits, as ECMAScript defines it on the
  mathematical value: the nearest integer to \<open>x * 10^f\<close>, the larger one on a tie, with the
  point inserted \<open>f\<close> digits from the right.
\<close>

definition toFixed :: "platform \<Rightarrow> nat \<Rightarrow> jsnum \<Rightarrow> jsstring" where
  "toFixed h f v =
     (case v of
        NaN \<Rightarrow> str ''NaN''
      | PosInfinity \<Rightarrow> str ''Infinity''
      | NegInfinity \<Rightarrow> str ''-Infinity''
      | Num x0 \<Rightarrow>
          (let s = (if x0 < 0 then str ''-'' else []);
               x = (if x0 < 0 then - x0 else x0)
           in if x \<ge> 10 ^ 21 then s @ numberToString h x
              else
                (let n = nat \<lfloor>x * 10 ^ f + 1 / 2\<rfloor>;
                     m = dec n
                 in if f \<noteq> 0
                    then
                      (let k = length m;
                           m = (if k \<le> f then replicate (f + 1 - k) 48 @ m else m);
                           k = (if k \<le> f then f + 1 else k)
                       in s @ take (k - f) m @ str ''.'' @ drop (k - f) m)
                    else s @ m)))"

definition formatNum :: "platform \<Rightarrow> jsnum \<Rightarrow> jsstring" where
  "formatNum h n =
     (if js_ge n (Num 1000000) then toFixed h 1 (js_div n (Num 1000000)) @ str ''M''
      else if js_ge n (Num 1000) then toFixed h 1 (js_div n (Num 1000)) @ str ''K''
      else toFixed h 0 n)"

text \<open>The label as the string the source holds.\<close>

fun pulse_str :: "pulse \<Rightarrow> jsstring" where
  "pulse_str Strong = str ''strong''"
| "pulse_str Stable = str ''stable''"
| "pulse_str Weak = str ''weak''"
| "pulse_str Critical = str ''critical''"
| "pulse_str Dead = str ''dead''"
| "pulse_str Error = str ''error''"

text \<open>The object literal that \<open>formatPulseSummary\<close> looks the emoji up in.\<close>

definition emoji_table :: "(jsstring \<times> jsstring) list" where
  "emoji_table =
     [((str ''strong''), [0xD83D, 0xDCAA]),
      ((str ''stable''), [0x2705]),
      ((str ''weak''), [0x26A0, 0xFE0F]),
      ((str ''critical''), [0xD83D, 0xDD34]),
      ((str ''dead''), [0xD83D, 0xDC80]),
      ((str ''error''), [0x274C])]"

definition emoji_of :: "pulse \<Rightarrow> jsstring" where
  "emoji_of p =
     (case map_of emoji_table (pulse_str p) of
        None \<Rightarrow> [0x2753]
      | Some e \<Rightarrow> e)"

text \<open>A text field inside a template literal.\<close>

definition interpolate :: "jstext \<Rightarrow> jsstring" where
  "interpolate v =
     (case v of Undefined \<Rightarrow> str ''undefined'' | Null \<Rightarrow> str ''null'' | Text s \<Rightarrow> s)"

definition formatPulseSummary :: "platform \<Rightarrow> pulse_result \<Rightarrow> js_error + jsstring" where
  "formatPulseSummary h result =
     (if \<not> found result
      then Inr (take 10 (address result) @ str ''... '' @ em_dash @ str '' '' @ pulse_str (pulse result))
      else
        (case token result of
           None \<Rightarrow>
             Inl (JsError (str ''Cannot read properties of undefined (reading '' @ [39]
                    @ str ''symbol'' @ [39] @ str '')''))
         | Some tok \<Rightarrow>
             (case stats result of
                None \<Rightarrow>
                  Inl (JsError (str ''Cannot read properties of undefined (reading '' @ [39]
                         @ str ''price'' @ [39] @ str '')''))
              | Some st \<Rightarrow>
                  Inr (emoji_of (pulse result) @ str '' $'' @ interpolate (symbol tok) @ str '' ''
                       @ em_dash @ str '' '' @ toUpperCase (pulse_str (pulse result))
                       @ str '' | $'' @ toFixed h 6 (price st)
                       @ str '' | mcap $'' @ formatNum h (mcap st)
                       @ str '' | vol $'' @ formatNum h (volume24h st)
                       @ str '' | '' @ (if js_ge (change24h st) (Num 0) then str ''+'' else [])
                       @ toFixed h 1 (change24h st) @ str ''%''))))"



section \<open>The HTTP handler\<close>

text \<open>The request, with the query parameters as \<open>searchParams.get\<close> returns them.\<close>

record request =
  http_method :: jsstring
  q_token :: "jsstring option"
  q_tokens :: "jsstring option"
  q_format :: "jsstring option"

text \<open>The response body, before \<open>JSON.stringify\<close>.\<close>

datatype body =
    NoBody
  | UsageError jsstring jsstring jsstring
  | MessageError jsstring jsstring
  | SingleResult pulse_result
  | BatchResults nat "pulse_result list"
  | SummaryResults nat "jsstring list" "pulse_result list"

record response =
  status :: nat
  headers :: "(jsstring \<times> jsstring) list"
  body :: body

definition cors_headers :: "(jsstring \<times> jsstring) list" where
  "cors_headers =
     [((str ''Content-Type''), (str ''application/json'')),
      ((str ''Access-Control-Allow-Origin''), (str ''*'')),
      ((str ''Access-Control-Allow-Methods''), (str ''GET, OPTIONS'')),
      ((str ''Cache-Control''), (str ''public, max-age=30''))]"

text \<open>
  The address list the handler builds; \<open>None\<close> is the early return when neither
  \<open>token\<close> nor \<open>tokens\<close> is a non-empty string.
\<close>

definition parse_addresses :: "request \<Rightarrow> jsstring list option" where
  "parse_addresses req =
     (if q_token req \<noteq> None \<and> q_token req \<noteq> Some []
      then Some [case q_token req of None \<Rightarrow> [] | Some t \<Rightarrow> t]
      else if q_tokens req \<noteq> None \<and> q_tokens req \<noteq> Some []
      then Some (filter (\<lambda>t. t \<noteq> [])
                   (map trim (split_comma (case q_tokens req of None \<Rightarrow> [] | Some ts \<Rightarrow> ts))))
      else None)"

definition internal_error :: "js_error \<Rightarrow> response" where
  "internal_error err =
     \<lparr>status = 500, headers = cors_headers,
      body = MessageError (str ''Internal error'') (err_message err)\<rparr>"

definition handler :: "platform \<Rightarrow> request \<Rightarrow> response" where
  "handler h req =
     (let format = (case q_format req of None \<Rightarrow> str ''full''
                    | Some f \<Rightarrow> if f \<noteq> [] then f else str ''full'')
      in if http_method req = str ''OPTIONS''
         then \<lparr>status = 200, headers = cors_headers, body = NoBody\<rparr>
         else
           (case parse_addresses req of
              None \<Rightarrow>
                \<lparr>status = 400, headers = cors_headers,
                 body = UsageError (str ''Missing token address'')
                   (str ''GET /api/pulse?token=0x... or GET /api/pulse?tokens=0x...,0x...'')
                   (str ''/api/pulse?token=0x4dc5f49fc95427b984f27db843755787589314c0'')\<rparr>
            | Some addresses \<Rightarrow>
                if length addresses > 10
                then \<lparr>status = 400, headers = cors_headers,
                      body = MessageError (str ''Too many tokens'') (str ''Maximum 10 tokens per request'')\<rparr>
                else
                  (case Promise_all (map (getPulse h) addresses) of
                     Inl err \<Rightarrow> internal_error err
                   | Inr results \<Rightarrow>
                       if format = str ''summary''
                       then
                         (case collect (map (formatPulseSummary h) results) of
                            Inl err \<Rightarrow> internal_error err
                          | Inr summaries \<Rightarrow>
                              \<lparr>status = 200, headers = cors_headers,
                               body = SummaryResults (length results) summaries results\<rparr>)
                       else if length addresses = 1
                       then \<lparr>status = 200, headers = cors_headers,
                             body = (case results of [] \<Rightarrow> NoBody | r # rs \<Rightarrow> SingleResult r)\<rparr>
                       else \<lparr>status = 200, headers = cors_headers,
                             body = BatchResults (length results) results\<rparr>)))"

section \<open>Concrete inputs\<close>

text \<open>Pairs, a pair list and a platform on which the theorems below are instantiated.\<close>

definition vol_pair :: "real \<Rightarrow> jsstring \<Rightarrow> dex_pair" where
  "vol_pair v d =
     \<lparr>volume = Some \<lparr>h24 = Some (Num v)\<rparr>, marketCap = None, fdv = None, priceChange = None,
      txns = None, liquidity = None, priceUsd = Undefined, baseToken = None,
      dexId = Text d, chainId = Undefined, url = Undefined\<rparr>"

definition zero_cap_pair :: dex_pair where
  "zero_cap_pair =
     \<lparr>volume = Some \<lparr>h24 = Some (Num 600)\<rparr>, marketCap = Some (Num 0), fdv = Some (Num 5000),
      priceChange = None, txns = None, liquidity = None, priceUsd = Text (str ''0.5''),
      baseToken = Some \<lparr>name = Text (str ''Zero''), symbol = Text (str ''ZERO'')\<rparr>,
      dexId = Undefined, chainId = Undefined, url = Undefined\<rparr>"

definition falling_pair :: dex_pair where
  "falling_pair =
     \<lparr>volume = None, marketCap = None, fdv = None,
      priceChange = Some \<lparr>h24 = Some (Num (- 60))\<rparr>, txns = None, liquidity = None,
      priceUsd = Undefined, baseToken = None, dexId = Undefined, chainId = Undefined,
      url = Undefined\<rparr>"

definition near_tenth_pair :: dex_pair where
  "near_tenth_pair =
     \<lparr>volume = Some \<lparr>h24 = Some (Num 5000000000000001)\<rparr>,
      marketCap = Some (Num 50000000000000008), fdv = None,
      priceChange = None, txns = None, liquidity = None, priceUsd = Undefined,
      baseToken = None, dexId = Undefined, chainId = Undefined, url = Undefined\<rparr>"

definition demo_platform :: platform where
  "demo_platform =
     \<lparr>fetch = (\<lambda>u.
        if u = DEXSCREENER_API @ str ''/0xB'' then Response 200 (Json (Some [scenario_pair]))
        else if u = DEXSCREENER_API @ str ''/0xC'' then Response 200 (Json (Some [zero_cap_pair]))
        else if u = DEXSCREENER_API @ str ''/0xD'' then Response 200 (Json None)
        else if u = DEXSCREENER_API @ str ''/0xE'' then Response 200 (Json (Some [falling_pair]))
        else Response 404 (BadJson (str ''Unexpected token''))),
      parseFloat = (\<lambda>s. if s = Text (str ''0.5'') then Num (1 / 2) else NaN),
      numberToString = (\<lambda>x. (str ''1e+21'')),
      now = str ''2026-02-02T15:30:00.000Z''\<rparr>"

definition demo_pairs :: "dex_pair list" where
  "demo_pairs = [vol_pair 5 (str ''a''), vol_pair 9 (str ''b''), vol_pair 9 (str ''c''), vol_pair 3 (str ''d'')]"

definition strong_result :: pulse_result where
  "strong_result =
     \<lparr>address = str ''0xB'', found = True, pulse = Strong, message = None, error = None,
      token = Some \<lparr>name = Undefined, symbol = Undefined\<rparr>,
      stats = Some \<lparr>price = Num 0, mcap = Num 50000, volume24h = Num 15000,
                    change24h = Num 25, txns24h = Num 60, stats_liquidity = Num 0\<rparr>,
      pair = Some \<lparr>dex = Undefined, chain = Undefined, pair_url = Undefined\<rparr>,
      pairCount = Some 1, timestamp = Some (str ''2026-02-02T15:30:00.000Z'')\<rparr>"

definition no_pairs_result :: pulse_result where
  "no_pairs_result =
     \<lparr>address = str ''0xD'', found = False, pulse = Dead,
      message = Some (str ''No trading pairs found''), error = None,
      token = None, stats = None, pair = None, pairCount = None, timestamp = None\<rparr>"

definition strong_line :: jsstring where
  "strong_line = [0xD83D, 0xDCAA] @ str '' $undefined '' @ em_dash
     @ str '' STRONG | $0.000000 | mcap $50.0K | vol $15.0K | +25.0%''"

definition batch_request :: request where
  "batch_request = \<lparr>http_method = str ''GET'', q_token = None, q_tokens = Some (str ''0xA,0xB''), q_format = None\<rparr>"

definition blank_request :: request where
  "blank_request = \<lparr>http_method = str ''GET'', q_token = None, q_tokens = Some (str '' , ''), q_format = None\<rparr>"

definition summary_request :: request where
  "summary_request =
     \<lparr>http_method = str ''GET'', q_token = Some (str ''0xB''), q_tokens = None, q_format = Some (str ''summary'')\<rparr>"

definition full_request :: request where
  "full_request = \<lparr>http_method = str ''GET'', q_token = Some (str ''0xB''), q_tokens = None, q_format = None\<rparr>"




section \<open>Binary64 values\<close>

text \<open>The rounding evaluated on the numbers the concrete inputs and the literals need.\<close>

lemma str_inject [simp]: "str a = str b \<longleftrightarrow> a = b"
  by (induction a arbitrary: b; case_tac b) (simp_all add: str.simps)

lemma str_empty [simp]: "str a = [] \<longleftrightarrow> a = []" "[] = str a \<longleftrightarrow> a = []"
  by (cases a; simp add: str.simps)+

lemma str_append [simp]:
  "str a @ str b = str (a @ b)" "str a @ str b @ c = str (a @ b) @ c"
  by (induction a) (simp_all add: str.simps)

lemmas binary64_eval =
  round64_def signed_def quantize_def binade_def nearest_even_def pow2_def bits.simps

lemma round64_zero [simp]: "round64 0 = Num 0"
  by (simp add: round64_def)

lemma tenth: "round64 (1 / 10) = Num (3602879701896397 / 36028797018963968)"
  by (simp add: binary64_eval)

lemma hundredth: "round64 (1 / 100) = Num (5764607523034235 / 576460752303423488)"
  by (simp add: binary64_eval)

lemma three_tenths: "round64 (3 / 10) = Num (5404319552844595 / 18014398509481984)"
  by (simp add: binary64_eval)

lemma three_25ths: "round64 (3 / 25) = Num (1080863910568919 / 9007199254740992)"
  by (simp add: binary64_eval)

lemma sixty: "round64 60 = Num 60"
  by (simp add: binary64_eval)

lemma fifty: "round64 50 = Num 50"
  by (simp add: binary64_eval)

lemma fifteen: "round64 15 = Num 15"
  by (simp add: binary64_eval)

text \<open>
  Two quotients on which the rounding shows: 1150 / 1000 is a value just below 1.15, and a
  quotient just above one tenth is the same number as the literal \<open>0.1\<close>.
\<close>

lemma quotient_1150: "js_div (Num 1150) (Num 1000) = Num (5179139571476070 / 4503599627370496)"
  by (simp add: binary64_eval)

lemma quotient_near_tenth:
  "js_div (Num 5000000000000001) (Num 50000000000000008) = round64 (1 / 10)"
  by (simp add: binary64_eval)

text \<open>
  With that quotient the turnover test \<open>volRatio > 0.1\<close> fails, although the exact quotient
  exceeds one tenth: the pair gets 3 for its volume and 1 for its turnover.
\<close>

lemma near_tenth_score:
  "score_of near_tenth_pair = 4 \<and> calculatePulse (Some near_tenth_pair) = Stable"
  by (simp add: calculatePulse_def score_of_def near_tenth_pair_def vol24h_def mcap_of_def
      change24h_of_def txns24h_of_def volRatio_def or_default_def or_else_def opt_chain_def
      js_gt_def Let_def binary64_eval)

section \<open>The scoring algorithm\<close>


lemma scenario_score: "score_of scenario_pair = 8"
  by (simp add: score_of_def scenario_pair_def vol24h_def mcap_of_def change24h_of_def
      txns24h_of_def volRatio_def or_default_def or_else_def opt_chain_def js_gt_def Let_def
      tenth hundredth three_tenths sixty)


section \<open>Selecting the main pair\<close>

lemma or_default_not_NaN: "or_default a (Num 0) \<noteq> NaN"
  by (cases a) (auto simp: or_default_def)

lemma vol24h_not_NaN: "vol24h p \<noteq> NaN"
  by (simp add: vol24h_def or_default_not_NaN)

lemma js_lt_irrefl: "\<not> js_lt a a"
  by (cases a) simp_all

lemma js_lt_trans: "js_lt a b \<Longrightarrow> js_lt b c \<Longrightarrow> js_lt a c"
  by (cases a; cases b; cases c) simp_all

lemma js_le_lt_trans: "b \<noteq> NaN \<Longrightarrow> a \<noteq> NaN \<Longrightarrow> \<not> js_lt b a \<Longrightarrow> js_lt b c \<Longrightarrow> js_lt a c"
  by (cases a; cases b; cases c) simp_all

lemma js_ge_trans: "js_ge a b \<Longrightarrow> js_ge b c \<Longrightarrow> js_ge a c"
  unfolding js_ge_def by (cases a; cases b; cases c) simp_all

lemma js_lt_imp_ge: "js_lt a b \<Longrightarrow> js_ge b a"
  unfolding js_ge_def by (cases a; cases b) simp_all

lemma js_ge_refl: "a \<noteq> NaN \<Longrightarrow> js_ge a a"
  unfolding js_ge_def by (cases a) simp_all

lemma not_lt_ge: "a \<noteq> NaN \<Longrightarrow> b \<noteq> NaN \<Longrightarrow> \<not> js_lt a b \<Longrightarrow> js_ge a b"
  unfolding js_ge_def by simp

lemma better_eq: "better best p = (if js_lt (vol24h best) (vol24h p) then p else best)"
  by (simp add: better_def vol24h_def js_gt_def)

lemma reduce_better:
  "(reduce better xs acc = acc \<and> (\<forall>j<length xs. js_ge (vol24h acc) (vol24h (xs ! j))))
   \<or> (\<exists>i<length xs. reduce better xs acc = xs ! i
         \<and> js_lt (vol24h acc) (vol24h (xs ! i))
         \<and> (\<forall>j<length xs. js_ge (vol24h (xs ! i)) (vol24h (xs ! j)))
         \<and> (\<forall>j<i. js_lt (vol24h (xs ! j)) (vol24h (xs ! i))))"
proof (induction xs arbitrary: acc)
  case Nil
  then show ?case by simp
next
  case (Cons x xs)
  show ?case
  proof (cases "js_lt (vol24h acc) (vol24h x)")
    case True
    then have step: "reduce better (x # xs) acc = reduce better xs x"
      by (simp add: better_eq)
    from Cons.IH[of x] show ?thesis
    proof
      assume keep: "reduce better xs x = x \<and> (\<forall>j<length xs. js_ge (vol24h x) (vol24h (xs ! j)))"
      have "\<forall>j<length (x # xs). js_ge (vol24h ((x # xs) ! 0)) (vol24h ((x # xs) ! j))"
        using keep by (auto simp: nth_Cons js_ge_refl vol24h_not_NaN split: nat.splits)
      then have "0 < length (x # xs) \<and> reduce better (x # xs) acc = (x # xs) ! 0
           \<and> js_lt (vol24h acc) (vol24h ((x # xs) ! 0))
           \<and> (\<forall>j<length (x # xs). js_ge (vol24h ((x # xs) ! 0)) (vol24h ((x # xs) ! j)))
           \<and> (\<forall>j<0. js_lt (vol24h ((x # xs) ! j)) (vol24h ((x # xs) ! 0)))"
        using keep step True by simp
      then show ?thesis by blast
    next
      assume "\<exists>i<length xs. reduce better xs x = xs ! i
         \<and> js_lt (vol24h x) (vol24h (xs ! i))
         \<and> (\<forall>j<length xs. js_ge (vol24h (xs ! i)) (vol24h (xs ! j)))
         \<and> (\<forall>j<i. js_lt (vol24h (xs ! j)) (vol24h (xs ! i)))"
      then obtain i where i: "i < length xs" "reduce better xs x = xs ! i"
        "js_lt (vol24h x) (vol24h (xs ! i))"
        "\<forall>j<length xs. js_ge (vol24h (xs ! i)) (vol24h (xs ! j))"
        "\<forall>j<i. js_lt (vol24h (xs ! j)) (vol24h (xs ! i))" by blast
      have a: "js_lt (vol24h acc) (vol24h ((x # xs) ! Suc i))"
        using True i(3) js_lt_trans by simp
      have b: "\<forall>j<length (x # xs). js_ge (vol24h ((x # xs) ! Suc i)) (vol24h ((x # xs) ! j))"
        using i(3,4) by (auto simp: nth_Cons js_lt_imp_ge split: nat.splits)
      have c: "\<forall>j<Suc i. js_lt (vol24h ((x # xs) ! j)) (vol24h ((x # xs) ! Suc i))"
        using i(3,5) by (auto simp: nth_Cons split: nat.splits)
      have "Suc i < length (x # xs) \<and> reduce better (x # xs) acc = (x # xs) ! Suc i"
        using i(1,2) step by simp
      with a b c show ?thesis by blast
    qed
  next
    case False
    then have step: "reduce better (x # xs) acc = reduce better xs acc"
      by (simp add: better_eq)
    have xle: "js_ge (vol24h acc) (vol24h x)"
      using False by (simp add: not_lt_ge vol24h_not_NaN)
    from Cons.IH[of acc] show ?thesis
    proof
      assume keep: "reduce better xs acc = acc \<and> (\<forall>j<length xs. js_ge (vol24h acc) (vol24h (xs ! j)))"
      have "\<forall>j<length (x # xs). js_ge (vol24h acc) (vol24h ((x # xs) ! j))"
        using keep xle by (auto simp: nth_Cons split: nat.splits)
      then show ?thesis using keep step by simp
    next
      assume "\<exists>i<length xs. reduce better xs acc = xs ! i
         \<and> js_lt (vol24h acc) (vol24h (xs ! i))
         \<and> (\<forall>j<length xs. js_ge (vol24h (xs ! i)) (vol24h (xs ! j)))
         \<and> (\<forall>j<i. js_lt (vol24h (xs ! j)) (vol24h (xs ! i)))"
      then obtain i where i: "i < length xs" "reduce better xs acc = xs ! i"
        "js_lt (vol24h acc) (vol24h (xs ! i))"
        "\<forall>j<length xs. js_ge (vol24h (xs ! i)) (vol24h (xs ! j))"
        "\<forall>j<i. js_lt (vol24h (xs ! j)) (vol24h (xs ! i))" by blast
      have xlt: "js_lt (vol24h x) (vol24h (xs ! i))"
        using False i(3) js_le_lt_trans[of "vol24h acc" "vol24h x" "vol24h (xs ! i)"]
        by (simp add: vol24h_not_NaN)
      have a: "js_lt (vol24h acc) (vol24h ((x # xs) ! Suc i))"
        using i(3) by simp
      have b: "\<forall>j<length (x # xs). js_ge (vol24h ((x # xs) ! Suc i)) (vol24h ((x # xs) ! j))"
        using xlt i(4) by (auto simp: nth_Cons js_lt_imp_ge split: nat.splits)
      have c: "\<forall>j<Suc i. js_lt (vol24h ((x # xs) ! j)) (vol24h ((x # xs) ! Suc i))"
        using xlt i(5) by (auto simp: nth_Cons split: nat.splits)
      have "Suc i < length (x # xs) \<and> reduce better (x # xs) acc = (x # xs) ! Suc i"
        using i(1,2) step by simp
      with a b c show ?thesis by blast
    qed
  qed
qed

text \<open>
  Claim C3. For a non-empty pair list the selected main pair is the pair at the least index
  whose 24h volume (an absent volume counting as 0) is maximal: no pair has a greater volume,
  and every earlier pair has a strictly smaller one.
\<close>

theorem C3_main_pair_selection:
  assumes "pairs \<noteq> []"
  shows "\<exists>i<length pairs. mainPair pairs = Some (pairs ! i)
           \<and> (\<forall>j<length pairs. js_ge (vol24h (pairs ! i)) (vol24h (pairs ! j)))
           \<and> (\<forall>j<i. js_lt (vol24h (pairs ! j)) (vol24h (pairs ! i)))"
proof -
  from assms obtain first rest where pairs: "pairs = first # rest"
    by (cases pairs) auto
  have main: "mainPair pairs = Some (reduce better pairs first)"
    by (simp add: mainPair_def pairs)
  from reduce_better[of pairs first] show ?thesis
  proof
    assume keep: "reduce better pairs first = first
      \<and> (\<forall>j<length pairs. js_ge (vol24h first) (vol24h (pairs ! j)))"
    have "0 < length pairs \<and> mainPair pairs = Some (pairs ! 0)
           \<and> (\<forall>j<length pairs. js_ge (vol24h (pairs ! 0)) (vol24h (pairs ! j)))
           \<and> (\<forall>j<0. js_lt (vol24h (pairs ! j)) (vol24h (pairs ! 0)))"
      using keep main by (simp add: pairs)
    then show ?thesis by blast
  next
    assume "\<exists>i<length pairs. reduce better pairs first = pairs ! i
         \<and> js_lt (vol24h first) (vol24h (pairs ! i))
         \<and> (\<forall>j<length pairs. js_ge (vol24h (pairs ! i)) (vol24h (pairs ! j)))
         \<and> (\<forall>j<i. js_lt (vol24h (pairs ! j)) (vol24h (pairs ! i)))"
    then show ?thesis using main by auto
  qed
qed

theorem C3_main_pair_selection_witness:
  "demo_pairs \<noteq> []
   \<and> (\<exists>i<length demo_pairs. mainPair demo_pairs = Some (demo_pairs ! i)
           \<and> (\<forall>j<length demo_pairs. js_ge (vol24h (demo_pairs ! i)) (vol24h (demo_pairs ! j)))
           \<and> (\<forall>j<i. js_lt (vol24h (demo_pairs ! j)) (vol24h (demo_pairs ! i))))
   \<and> mainPair demo_pairs = Some (vol_pair 9 (str ''b''))
   \<and> demo_pairs ! 1 = vol_pair 9 (str ''b'') \<and> vol24h (demo_pairs ! 2) = vol24h (demo_pairs ! 1)"
proof -
  have ne: "demo_pairs \<noteq> []"
    by (simp add: demo_pairs_def)
  have main: "mainPair demo_pairs = Some (vol_pair 9 (str ''b''))"
    by (simp add: demo_pairs_def mainPair_def better_eq vol24h_def vol_pair_def
        or_default_def opt_chain_def)
  have nth: "demo_pairs ! 1 = vol_pair 9 (str ''b'') \<and> vol24h (demo_pairs ! 2) = vol24h (demo_pairs ! 1)"
    by (simp add: demo_pairs_def vol24h_def vol_pair_def or_default_def opt_chain_def)
  show ?thesis
    using ne main nth C3_main_pair_selection[OF ne] by blast
qed

section \<open>Market capitalization\<close>

lemma getPulse_found:
  assumes "fetchTokenData h a = Inr pairs" and "mainPair pairs = Some main"
  shows "\<exists>r st. getPulse h a = Inr r \<and> found r \<and> stats r = Some st \<and> mcap st = mcap_of main
     \<and> pulse r = calculatePulse (Some main)
     \<and> token r = Some \<lparr>name = opt_text (baseToken main) name,
                             symbol = opt_text (baseToken main) symbol\<rparr>"
proof -
  from assms(2) have "pairs \<noteq> []" by (auto simp: mainPair_def)
  then show ?thesis using assms by (simp add: getPulse_def mcap_of_def)
qed

text \<open>
  The claim as stated fails: a market capitalization that is present with value 0 is falsy,
  so both the scorer and the assembled stats take the fully-diluted valuation.
\<close>

theorem C6_counterexample:
  "marketCap zero_cap_pair = Some (Num 0) \<and> fdv zero_cap_pair = Some (Num 5000)
   \<and> mcap_of zero_cap_pair = Num 5000 \<and> mcap_of zero_cap_pair \<noteq> Num 0
   \<and> getPulse demo_platform (str ''0xC'') =
       Inr \<lparr>address = str ''0xC'', found = True, pulse = Weak, message = None, error = None,
            token = Some \<lparr>name = Text (str ''Zero''), symbol = Text (str ''ZERO'')\<rparr>,
            stats = Some \<lparr>price = Num (1 / 2), mcap = Num 5000, volume24h = Num 600,
                          change24h = Num 0, txns24h = Num 0, stats_liquidity = Num 0\<rparr>,
            pair = Some \<lparr>dex = Undefined, chain = Undefined, pair_url = Undefined\<rparr>,
            pairCount = Some 1, timestamp = Some (str ''2026-02-02T15:30:00.000Z'')\<rparr>"
  by (simp add: zero_cap_pair_def mcap_of_def or_default_def or_else_def getPulse_def
      fetchTokenData_def demo_platform_def DEXSCREENER_API_def mainPair_def better_def
      opt_chain_def opt_text_def js_gt_def calculatePulse_def score_of_def vol24h_def
      change24h_of_def txns24h_of_def volRatio_def Let_def tenth hundredth three_25ths)

text \<open>
  Claim C6, amended. In the scorer and in the assembled stats alike, mcap is the pair's market
  capitalization when that is present and truthy (neither 0 nor NaN); otherwise it is the
  fully-diluted valuation when that is present and truthy; otherwise it is 0. A market
  capitalization of 0 therefore falls back exactly as an absent one does: with a positive
  fully-diluted valuation, mcap is that valuation.
\<close>

theorem C6_mcap_fallback:
  "mcap_of p =
     (case marketCap p of
        Some m \<Rightarrow> if truthy m then m
                  else (case fdv p of Some f \<Rightarrow> if truthy f then f else Num 0 | None \<Rightarrow> Num 0)
      | None \<Rightarrow> (case fdv p of Some f \<Rightarrow> if truthy f then f else Num 0 | None \<Rightarrow> Num 0))
   \<and> (fetchTokenData h a = Inr pairs \<and> mainPair pairs = Some main
        \<longrightarrow> (\<exists>r st. getPulse h a = Inr r \<and> stats r = Some st \<and> mcap st = mcap_of main))
   \<and> (marketCap p = Some (Num 0) \<and> fdv p = Some (Num f) \<and> 0 < f \<longrightarrow> mcap_of p = Num f)"
proof -
  have "marketCap p = Some (Num 0) \<and> fdv p = Some (Num f) \<and> 0 < f \<longrightarrow> mcap_of p = Num f"
    by (simp add: mcap_of_def or_default_def or_else_def)
  moreover have "mcap_of p =
     (case marketCap p of
        Some m \<Rightarrow> if truthy m then m
                  else (case fdv p of Some f \<Rightarrow> if truthy f then f else Num 0 | None \<Rightarrow> Num 0)
      | None \<Rightarrow> (case fdv p of Some f \<Rightarrow> if truthy f then f else Num 0 | None \<Rightarrow> Num 0))"
    by (simp add: mcap_of_def or_default_def or_else_def split: option.splits)
  moreover have "fetchTokenData h a = Inr pairs \<and> mainPair pairs = Some main
        \<longrightarrow> (\<exists>r st. getPulse h a = Inr r \<and> stats r = Some st \<and> mcap st = mcap_of main)"
    using getPulse_found[of h a pairs main] by blast
  ultimately show ?thesis by blast
qed

theorem C6_mcap_fallback_witness:
  "marketCap zero_cap_pair = Some (Num 0) \<and> fdv zero_cap_pair = Some (Num 5000)
   \<and> (0::real) < 5000 \<and> mcap_of zero_cap_pair = Num 5000
   \<and> fetchTokenData demo_platform (str ''0xC'') = Inr [zero_cap_pair]
   \<and> mainPair [zero_cap_pair] = Some zero_cap_pair
   \<and> (\<exists>r st. getPulse demo_platform (str ''0xC'') = Inr r \<and> stats r = Some st
         \<and> mcap st = Num 5000)"
proof -
  have fetched: "fetchTokenData demo_platform (str ''0xC'') = Inr [zero_cap_pair]"
    by (simp add: fetchTokenData_def demo_platform_def DEXSCREENER_API_def)
  have main: "mainPair [zero_cap_pair] = Some zero_cap_pair"
    by (simp add: mainPair_def better_def)
  have fields: "marketCap zero_cap_pair = Some (Num 0) \<and> fdv zero_cap_pair = Some (Num 5000)
      \<and> (0::real) < 5000"
    by (simp add: zero_cap_pair_def)
  have cap: "mcap_of zero_cap_pair = Num 5000"
    using fields
      C6_mcap_fallback[of zero_cap_pair demo_platform "(str ''0xC'')" "[zero_cap_pair]" zero_cap_pair 5000]
    by blast
  have "\<exists>r st. getPulse demo_platform (str ''0xC'') = Inr r \<and> stats r = Some st
          \<and> mcap st = mcap_of zero_cap_pair"
    using fetched main
      C6_mcap_fallback[of zero_cap_pair demo_platform "(str ''0xC'')" "[zero_cap_pair]" zero_cap_pair]
    by blast
  then have "\<exists>r st. getPulse demo_platform (str ''0xC'') = Inr r \<and> stats r = Some st
          \<and> mcap st = Num 5000"
    unfolding cap .
  then show ?thesis
    using fetched main cap fields by blast
qed

section \<open>Turnover\<close>

text \<open>
  Claim C8. The turnover ratio is the quotient of volume and mcap, as the division of the two
  numbers gives it (for finite values the binary64 quotient), when mcap is positive, and 0
  when mcap is 0 or absent. The division is performed only under the guard \<open>mcap > 0\<close>:
  whenever the ratio is not 0 the guard held, and with mcap 0 the ratio is 0 and not the
  infinity or NaN that a division by zero gives.
\<close>

theorem C8_volRatio_guarded:
  "(js_gt (mcap_of p) (Num 0) \<longrightarrow> volRatio p = js_div (vol24h p) (mcap_of p))
   \<and> (mcap_of p = Num m \<and> 0 < m \<and> vol24h p = Num v \<longrightarrow> volRatio p = round64 (v / m))
   \<and> (mcap_of p = Num 0 \<longrightarrow> volRatio p = Num 0)
   \<and> (marketCap p = None \<and> fdv p = None \<longrightarrow> volRatio p = Num 0)
   \<and> (volRatio p \<noteq> Num 0 \<longrightarrow>
         js_gt (mcap_of p) (Num 0) \<and> volRatio p = js_div (vol24h p) (mcap_of p))
   \<and> (\<not> js_gt (mcap_of p) (Num 0) \<longrightarrow> volRatio p = Num 0)
   \<and> (mcap_of p = Num 0 \<longrightarrow> volRatio p \<noteq> js_div (vol24h p) (mcap_of p))"
proof -
  have g: "js_gt (mcap_of p) (Num 0) \<longrightarrow> volRatio p = js_div (vol24h p) (mcap_of p)"
    by (simp add: volRatio_def)
  have a: "mcap_of p = Num m \<and> 0 < m \<and> vol24h p = Num v \<longrightarrow> volRatio p = round64 (v / m)"
    by (simp add: volRatio_def js_gt_def)
  have b: "mcap_of p = Num 0 \<longrightarrow> volRatio p = Num 0"
    by (simp add: volRatio_def js_gt_def)
  have c: "marketCap p = None \<and> fdv p = None \<longrightarrow> volRatio p = Num 0"
    by (simp add: volRatio_def mcap_of_def or_default_def or_else_def js_gt_def)
  have d: "volRatio p \<noteq> Num 0 \<longrightarrow>
         js_gt (mcap_of p) (Num 0) \<and> volRatio p = js_div (vol24h p) (mcap_of p)"
    by (simp add: volRatio_def)
  have e: "\<not> js_gt (mcap_of p) (Num 0) \<longrightarrow> volRatio p = Num 0"
    by (simp add: volRatio_def)
  have zero_div: "js_div x (Num 0) \<noteq> Num 0" if "x \<noteq> NaN" for x
    using that by (cases x) auto
  have f: "mcap_of p = Num 0 \<longrightarrow> volRatio p \<noteq> js_div (vol24h p) (mcap_of p)"
    using zero_div[OF vol24h_not_NaN, of p] by (simp add: volRatio_def js_gt_def)
  from g a b c d e f show ?thesis by blast
qed

theorem C8_volRatio_guarded_witness:
  "mcap_of scenario_pair = Num 50000 \<and> (0::real) < 50000 \<and> vol24h scenario_pair = Num 15000
   \<and> js_gt (mcap_of scenario_pair) (Num 0)
   \<and> volRatio scenario_pair = round64 (15000 / 50000)
   \<and> volRatio scenario_pair = Num (5404319552844595 / 18014398509481984)
   \<and> mcap_of falling_pair = Num 0 \<and> marketCap falling_pair = None \<and> fdv falling_pair = None
   \<and> volRatio falling_pair = Num 0"
proof -
  have m: "mcap_of scenario_pair = Num 50000"
    by (simp add: scenario_pair_def mcap_of_def or_default_def or_else_def)
  have v: "vol24h scenario_pair = Num 15000"
    by (simp add: scenario_pair_def vol24h_def or_default_def opt_chain_def)
  have g: "js_gt (mcap_of scenario_pair) (Num 0)"
    by (simp add: m js_gt_def)
  have "mcap_of scenario_pair = Num 50000 \<and> (0::real) < 50000
      \<and> vol24h scenario_pair = Num 15000 \<longrightarrow> volRatio scenario_pair = round64 (15000 / 50000)"
    using C8_volRatio_guarded[of scenario_pair 50000 15000] by blast
  then have r: "volRatio scenario_pair = round64 (15000 / 50000)"
    using m v by simp
  have r': "volRatio scenario_pair = Num (5404319552844595 / 18014398509481984)"
    using r by (simp add: three_tenths)
  have f: "mcap_of falling_pair = Num 0 \<and> marketCap falling_pair = None \<and> fdv falling_pair = None"
    by (simp add: falling_pair_def mcap_of_def or_default_def or_else_def)
  have "mcap_of falling_pair = Num 0 \<longrightarrow> volRatio falling_pair = Num 0"
    using C8_volRatio_guarded[of falling_pair 0 0] by blast
  then have z: "volRatio falling_pair = Num 0"
    using f by simp
  from m v g r r' f z show ?thesis by simp
qed

section \<open>The results the system produces\<close>

lemma calculatePulse_not_Error: "calculatePulse p \<noteq> Error"
  by (simp add: calculatePulse_def Let_def split: option.splits)

lemma getPulse_cases:
  assumes "getPulse h a = Inr r"
  shows "(\<not> found r \<and> pulse r = Dead \<and> message r = Some (str ''No trading pairs found'')
            \<and> error r = None \<and> token r = None \<and> stats r = None \<and> pair r = None
            \<and> fetchTokenData h a = Inr [])
       \<or> (found r \<and> pulse r \<noteq> Error \<and> token r \<noteq> None \<and> stats r \<noteq> None \<and> pair r \<noteq> None)"
  using assms
  by (auto simp: getPulse_def calculatePulse_not_Error split: sum.splits if_splits option.splits)

lemma getBatchPulse_isolated:
  "getBatchPulse h addresses =
     Inr (map (\<lambda>addr. case getPulse h addr of Inl err \<Rightarrow> error_result addr err | Inr r \<Rightarrow> r)
            addresses)"
  unfolding getBatchPulse_def Promise_all_def
  by (induction addresses) (simp_all split: sum.splits)

text \<open>
  Claim C9. Every result that getPulse resolves to, and every entry of the list that
  getBatchPulse resolves to, satisfies: when found is false the pulse is dead or error and the
  token, stats and pair fields are absent; when found is true the pulse is one of strong,
  stable, weak, critical and dead. A found pair with a negative score is labelled dead.
\<close>

theorem C9_result_invariant:
  "(getPulse h a = Inr r \<longrightarrow>
      (\<not> found r \<longrightarrow> (pulse r = Dead \<or> pulse r = Error)
           \<and> token r = None \<and> stats r = None \<and> pair r = None)
    \<and> (found r \<longrightarrow> pulse r \<in> {Strong, Stable, Weak, Critical, Dead}))
   \<and> (\<exists>rs. getBatchPulse h addresses = Inr rs \<and> length rs = length addresses
        \<and> (\<forall>r \<in> set rs.
              (\<not> found r \<longrightarrow> (pulse r = Dead \<or> pulse r = Error)
                  \<and> token r = None \<and> stats r = None \<and> pair r = None)
            \<and> (found r \<longrightarrow> pulse r \<in> {Strong, Stable, Weak, Critical, Dead})))
   \<and> score_of falling_pair < 0
   \<and> (\<exists>r. getPulse demo_platform (str ''0xE'') = Inr r \<and> found r \<and> pulse r = Dead)"
proof -
  have inv: "(\<not> found r \<longrightarrow> (pulse r = Dead \<or> pulse r = Error)
           \<and> token r = None \<and> stats r = None \<and> pair r = None)
    \<and> (found r \<longrightarrow> pulse r \<in> {Strong, Stable, Weak, Critical, Dead})"
    if "getPulse h a = Inr r" for h a r
    using getPulse_cases[OF that] by (cases "pulse r") auto
  have err: "(\<not> found r \<longrightarrow> (pulse r = Dead \<or> pulse r = Error)
           \<and> token r = None \<and> stats r = None \<and> pair r = None)
    \<and> (found r \<longrightarrow> pulse r \<in> {Strong, Stable, Weak, Critical, Dead})"
    if "r = error_result a e" for a e r
    using that by (simp add: error_result_def)
  have batch: "\<forall>r \<in> set (map (\<lambda>addr. case getPulse h addr of Inl err \<Rightarrow> error_result addr err | Inr r \<Rightarrow> r) addresses).
              (\<not> found r \<longrightarrow> (pulse r = Dead \<or> pulse r = Error)
                  \<and> token r = None \<and> stats r = None \<and> pair r = None)
            \<and> (found r \<longrightarrow> pulse r \<in> {Strong, Stable, Weak, Critical, Dead})"
  proof
    fix r assume "r \<in> set (map (\<lambda>addr. case getPulse h addr of Inl err \<Rightarrow> error_result addr err | Inr r \<Rightarrow> r) addresses)"
    then obtain addr where r: "r = (case getPulse h addr of Inl err \<Rightarrow> error_result addr err | Inr r \<Rightarrow> r)"
      by auto
    show "(\<not> found r \<longrightarrow> (pulse r = Dead \<or> pulse r = Error)
                  \<and> token r = None \<and> stats r = None \<and> pair r = None)
            \<and> (found r \<longrightarrow> pulse r \<in> {Strong, Stable, Weak, Critical, Dead})"
    proof (cases "getPulse h addr")
      case (Inl e)
      then show ?thesis using r err[of r addr e] by simp
    next
      case (Inr r')
      then show ?thesis using r inv[of h addr r'] by simp
    qed
  qed
  have neg: "score_of falling_pair < 0"
    by (simp add: score_of_def falling_pair_def vol24h_def mcap_of_def change24h_of_def
      txns24h_of_def volRatio_def or_default_def or_else_def opt_chain_def js_gt_def Let_def
      tenth hundredth)
  have dead: "\<exists>r. getPulse demo_platform (str ''0xE'') = Inr r \<and> found r \<and> pulse r = Dead"
    using neg by (simp add: getPulse_def fetchTokenData_def demo_platform_def DEXSCREENER_API_def
        mainPair_def better_def calculatePulse_def Let_def)
  show ?thesis
    using inv[of h a r] batch neg dead by (simp add: getBatchPulse_isolated)
qed

section \<open>Evaluation on the concrete inputs\<close>

lemma getPulse_0xB: "getPulse demo_platform (str ''0xB'') = Inr strong_result"
  by (simp add: getPulse_def fetchTokenData_def demo_platform_def DEXSCREENER_API_def
      mainPair_def better_def calculatePulse_def scenario_score strong_result_def)
     (simp add: scenario_pair_def opt_chain_def opt_text_def or_default_def or_else_def sixty)

lemma getPulse_0xD: "getPulse demo_platform (str ''0xD'') = Inr no_pairs_result"
  by (simp add: getPulse_def fetchTokenData_def demo_platform_def DEXSCREENER_API_def
      no_pairs_result_def)

lemma dec_404: "dec 404 = str ''404''"
  by (simp add: dec.simps str.simps)

lemma getPulse_0xA: "getPulse demo_platform (str ''0xA'') = Inl (JsError (str ''Dexscreener API error: 404''))"
  by (simp add: getPulse_def fetchTokenData_def demo_platform_def DEXSCREENER_API_def dec_404)

lemma replicate_numeral_unfold: "replicate (numeral k) x = x # replicate (pred_numeral k) x"
  by (simp add: numeral_eq_Suc)

lemma format_strong: "formatPulseSummary h strong_result = Inr strong_line"
  by (simp add: formatPulseSummary_def strong_result_def strong_line_def emoji_of_def
      emoji_table_def interpolate_def toUpperCase_def upper_unit_def toFixed_def formatNum_def
      js_ge_def em_dash_def Let_def fifty fifteen)
     (simp add: dec.simps replicate_numeral_unfold str.simps upper_unit_def)

theorem C9_result_invariant_witness:
  "getPulse demo_platform (str ''0xD'') = Inr no_pairs_result
   \<and> \<not> found no_pairs_result \<and> pulse no_pairs_result = Dead
   \<and> token no_pairs_result = None \<and> stats no_pairs_result = None \<and> pair no_pairs_result = None
   \<and> (\<exists>rs. getBatchPulse demo_platform [(str ''0xA''), (str ''0xB'')] = Inr rs \<and> length rs = 2)"
proof -
  have nf: "\<not> found no_pairs_result"
    by (simp add: no_pairs_result_def)
  from C9_result_invariant[of demo_platform "(str ''0xD'')" no_pairs_result "[(str ''0xA''), (str ''0xB'')]"]
  have absent: "(pulse no_pairs_result = Dead \<or> pulse no_pairs_result = Error)
      \<and> token no_pairs_result = None \<and> stats no_pairs_result = None \<and> pair no_pairs_result = None"
    and batch: "\<exists>rs. getBatchPulse demo_platform [(str ''0xA''), (str ''0xB'')] = Inr rs \<and> length rs = 2"
    using getPulse_0xD nf by auto
  have "pulse no_pairs_result = Dead"
    by (simp add: no_pairs_result_def)
  with absent batch nf getPulse_0xD show ?thesis by blast
qed

section \<open>Undefined token fields\<close>

text \<open>
  Claim C10. When the main pair has no baseToken, getPulse still answers found = true, with a
  token whose name and symbol are both undefined, and formatPulseSummary renders the symbol
  as the literal text $undefined.
\<close>

theorem C10_undefined_symbol:
  "fetchTokenData h a = Inr pairs \<and> mainPair pairs = Some main \<and> baseToken main = None
   \<longrightarrow> (\<exists>r st. getPulse h a = Inr r \<and> found r
          \<and> token r = Some \<lparr>name = Undefined, symbol = Undefined\<rparr> \<and> stats r = Some st
          \<and> formatPulseSummary h r =
              Inr (emoji_of (pulse r) @ str '' $undefined '' @ em_dash @ str '' ''
                   @ toUpperCase (pulse_str (pulse r))
                   @ str '' | $'' @ toFixed h 6 (price st)
                   @ str '' | mcap $'' @ formatNum h (mcap st)
                   @ str '' | vol $'' @ formatNum h (volume24h st)
                   @ str '' | '' @ (if js_ge (change24h st) (Num 0) then str ''+'' else [])
                   @ toFixed h 1 (change24h st) @ str ''%''))"
proof
  assume asm: "fetchTokenData h a = Inr pairs \<and> mainPair pairs = Some main \<and> baseToken main = None"
  then obtain r st where r: "getPulse h a = Inr r" "found r" "stats r = Some st"
    "token r = Some \<lparr>name = opt_text (baseToken main) name,
                       symbol = opt_text (baseToken main) symbol\<rparr>"
    using getPulse_found[of h a pairs main] by blast
  have tok: "token r = Some \<lparr>name = Undefined, symbol = Undefined\<rparr>"
    using r(4) asm by (simp add: opt_text_def)
  have "formatPulseSummary h r =
              Inr (emoji_of (pulse r) @ str '' $undefined '' @ em_dash @ str '' ''
                   @ toUpperCase (pulse_str (pulse r))
                   @ str '' | $'' @ toFixed h 6 (price st)
                   @ str '' | mcap $'' @ formatNum h (mcap st)
                   @ str '' | vol $'' @ formatNum h (volume24h st)
                   @ str '' | '' @ (if js_ge (change24h st) (Num 0) then str ''+'' else [])
                   @ toFixed h 1 (change24h st) @ str ''%'')"
    using r(2,3) tok by (simp add: formatPulseSummary_def interpolate_def)
  with r tok show "\<exists>r st. getPulse h a = Inr r \<and> found r
          \<and> token r = Some \<lparr>name = Undefined, symbol = Undefined\<rparr> \<and> stats r = Some st
          \<and> formatPulseSummary h r =
              Inr (emoji_of (pulse r) @ str '' $undefined '' @ em_dash @ str '' ''
                   @ toUpperCase (pulse_str (pulse r))
                   @ str '' | $'' @ toFixed h 6 (price st)
                   @ str '' | mcap $'' @ formatNum h (mcap st)
                   @ str '' | vol $'' @ formatNum h (volume24h st)
                   @ str '' | '' @ (if js_ge (change24h st) (Num 0) then str ''+'' else [])
                   @ toFixed h 1 (change24h st) @ str ''%'')"
    by blast
qed

theorem C10_undefined_symbol_witness:
  "fetchTokenData demo_platform (str ''0xB'') = Inr [scenario_pair]
   \<and> mainPair [scenario_pair] = Some scenario_pair \<and> baseToken scenario_pair = None
   \<and> (\<exists>r. getPulse demo_platform (str ''0xB'') = Inr r \<and> found r
         \<and> token r = Some \<lparr>name = Undefined, symbol = Undefined\<rparr>)
   \<and> formatPulseSummary demo_platform strong_result =
       Inr ([0xD83D, 0xDCAA] @ str '' $undefined '' @ em_dash
            @ str '' STRONG | $0.000000 | mcap $50.0K | vol $15.0K | +25.0%'')"
proof -
  have f: "fetchTokenData demo_platform (str ''0xB'') = Inr [scenario_pair]"
    by (simp add: fetchTokenData_def demo_platform_def DEXSCREENER_API_def)
  have m: "mainPair [scenario_pair] = Some scenario_pair"
    by (simp add: mainPair_def better_def)
  have b: "baseToken scenario_pair = None"
    by (simp add: scenario_pair_def)
  have "\<exists>r. getPulse demo_platform (str ''0xB'') = Inr r \<and> found r
         \<and> token r = Some \<lparr>name = Undefined, symbol = Undefined\<rparr>"
    using C10_undefined_symbol[of demo_platform "(str ''0xB'')" "[scenario_pair]" scenario_pair] f m b
    by blast
  then show ?thesis
    using f m b format_strong[of demo_platform] by (simp add: strong_line_def)
qed

section \<open>The handler\<close>

lemma collect_Inr_length: "collect xs = Inr ys \<Longrightarrow> length ys = length xs"
  by (induction xs arbitrary: ys rule: collect.induct) (auto split: sum.splits)

lemma collect_Inr_nth: "collect xs = Inr ys \<Longrightarrow> i < length xs \<Longrightarrow> xs ! i = Inr (ys ! i)"
proof (induction xs arbitrary: ys i rule: collect.induct)
  case 1
  then show ?case by simp
next
  case (2 e ps)
  then show ?case by simp
next
  case (3 v ps)
  then show ?case by (cases i) (auto split: sum.splits)
qed

lemma collect_total: "\<forall>x \<in> set xs. \<exists>y. x = Inr y \<Longrightarrow> \<exists>ys. collect xs = Inr ys"
  by (induction xs rule: collect.induct) auto

lemma collect_Inl: "Inl e \<in> set xs \<Longrightarrow> \<exists>e'. collect xs = Inl e'"
  by (induction xs rule: collect.induct) (auto split: sum.splits)

lemma format_getPulse_total:
  assumes "getPulse h a = Inr r"
  shows "\<exists>s. formatPulseSummary h' r = Inr s"
  using getPulse_cases[OF assms] by (auto simp: formatPulseSummary_def)

lemma summaries_total:
  assumes "Promise_all (map (getPulse h) addresses) = Inr results"
  shows "\<exists>summaries. collect (map (formatPulseSummary h) results) = Inr summaries"
proof (rule collect_total, rule ballI)
  fix x assume "x \<in> set (map (formatPulseSummary h) results)"
  then obtain i where i: "i < length results" "x = formatPulseSummary h (results ! i)"
    by (auto simp: in_set_conv_nth)
  have len: "length results = length addresses"
    using collect_Inr_length[of "map (getPulse h) addresses" results] assms
    by (simp add: Promise_all_def)
  have "getPulse h (addresses ! i) = Inr (results ! i)"
    using collect_Inr_nth[of "map (getPulse h) addresses" results i] assms i(1) len
    by (simp add: Promise_all_def)
  then show "\<exists>y. x = Inr y"
    using format_getPulse_total i(2) by blast
qed

text \<open>
  The claim as stated fails for one address under format=summary: the summary branch is taken
  before the single-address branch, and the body is the wrapper with count 1.
\<close>

theorem C4_counterexample:
  "parse_addresses summary_request = Some [(str ''0xB'')]
   \<and> handler demo_platform summary_request =
       \<lparr>status = 200, headers = cors_headers,
        body = SummaryResults 1 [strong_line] [strong_result]\<rparr>
   \<and> body (handler demo_platform summary_request) \<noteq> SingleResult strong_result"
proof -
  have p: "parse_addresses summary_request = Some [(str ''0xB'')]"
    by (simp add: parse_addresses_def summary_request_def)
  have h: "handler demo_platform summary_request =
       \<lparr>status = 200, headers = cors_headers,
        body = SummaryResults 1 [strong_line] [strong_result]\<rparr>"
    by (simp add: handler_def p Promise_all_def getPulse_0xB format_strong)
       (simp add: summary_request_def)
  show ?thesis using p h by simp
qed

text \<open>
  Claim C4, amended. For a request that passes validation and whose lookups all succeed, the
  response has status 200. Under format=summary the body is {count, summaries, results},
  for one address as for several. Otherwise the body is the single result itself when the
  request supplies exactly one address, and {count, results} when it does not.
\<close>

theorem C4_response_shape:
  "http_method req \<noteq> (str ''OPTIONS'') \<and> parse_addresses req = Some addresses \<and> length addresses \<le> 10
     \<and> Promise_all (map (getPulse h) addresses) = Inr results
   \<longrightarrow> status (handler h req) = 200 \<and> length results = length addresses
      \<and> (q_format req = Some (str ''summary'') \<longrightarrow>
            (\<exists>summaries. collect (map (formatPulseSummary h) results) = Inr summaries
               \<and> body (handler h req) = SummaryResults (length results) summaries results))
      \<and> (q_format req \<noteq> Some (str ''summary'') \<and> length addresses = 1 \<longrightarrow>
            (\<exists>r. results = [r] \<and> body (handler h req) = SingleResult r))
      \<and> (q_format req \<noteq> Some (str ''summary'') \<and> length addresses \<noteq> 1 \<longrightarrow>
            body (handler h req) = BatchResults (length results) results)"
proof (intro impI, elim conjE)
  assume m: "http_method req \<noteq> (str ''OPTIONS'')"
    and p: "parse_addresses req = Some addresses"
    and n: "length addresses \<le> 10"
    and ok: "Promise_all (map (getPulse h) addresses) = Inr results"
  have len: "length results = length addresses"
    using collect_Inr_length[of "map (getPulse h) addresses" results] ok
    by (simp add: Promise_all_def)
  obtain summaries where s: "collect (map (formatPulseSummary h) results) = Inr summaries"
    using summaries_total[OF ok] by blast
  have fmt: "((case q_format req of None \<Rightarrow> str ''full'' | Some f \<Rightarrow> if f \<noteq> [] then f else str ''full'')
      = str ''summary'') = (q_format req = Some (str ''summary''))"
    by (auto split: option.splits)
  have st: "status (handler h req) = 200"
    using m p n ok s by (simp add: handler_def Let_def)
  have a: "q_format req = Some (str ''summary'') \<longrightarrow>
            (\<exists>summaries. collect (map (formatPulseSummary h) results) = Inr summaries
               \<and> body (handler h req) = SummaryResults (length results) summaries results)"
    using m p n ok s by (simp add: handler_def Let_def)
  have b: "q_format req \<noteq> Some (str ''summary'') \<and> length addresses = 1 \<longrightarrow>
            (\<exists>r. results = [r] \<and> body (handler h req) = SingleResult r)"
  proof
    assume f: "q_format req \<noteq> Some (str ''summary'') \<and> length addresses = 1"
    then obtain r where r: "results = [r]"
      using len by (cases results) auto
    have "body (handler h req) = SingleResult r"
      using m p n ok f r fmt by (simp add: handler_def Let_def)
    with r show "\<exists>r. results = [r] \<and> body (handler h req) = SingleResult r" by blast
  qed
  have c: "q_format req \<noteq> Some (str ''summary'') \<and> length addresses \<noteq> 1 \<longrightarrow>
            body (handler h req) = BatchResults (length results) results"
    using m p n ok fmt by (simp add: handler_def Let_def)
  from st len a b c
  show "status (handler h req) = 200 \<and> length results = length addresses
      \<and> (q_format req = Some (str ''summary'') \<longrightarrow>
            (\<exists>summaries. collect (map (formatPulseSummary h) results) = Inr summaries
               \<and> body (handler h req) = SummaryResults (length results) summaries results))
      \<and> (q_format req \<noteq> Some (str ''summary'') \<and> length addresses = 1 \<longrightarrow>
            (\<exists>r. results = [r] \<and> body (handler h req) = SingleResult r))
      \<and> (q_format req \<noteq> Some (str ''summary'') \<and> length addresses \<noteq> 1 \<longrightarrow>
            body (handler h req) = BatchResults (length results) results)"
    by blast
qed

theorem C4_response_shape_witness:
  "http_method full_request \<noteq> (str ''OPTIONS'') \<and> parse_addresses full_request = Some [(str ''0xB'')]
   \<and> length [(str ''0xB'')] \<le> (10::nat)
   \<and> Promise_all (map (getPulse demo_platform) [(str ''0xB'')]) = Inr [strong_result]
   \<and> q_format full_request \<noteq> Some (str ''summary'')
   \<and> status (handler demo_platform full_request) = 200
   \<and> body (handler demo_platform full_request) = SingleResult strong_result"
proof -
  have m: "http_method full_request \<noteq> (str ''OPTIONS'')"
    by (simp add: full_request_def)
  have p: "parse_addresses full_request = Some [(str ''0xB'')]"
    by (simp add: parse_addresses_def full_request_def)
  have ok: "Promise_all (map (getPulse demo_platform) [(str ''0xB'')]) = Inr [strong_result]"
    by (simp add: Promise_all_def getPulse_0xB)
  have f: "q_format full_request \<noteq> Some (str ''summary'')"
    by (simp add: full_request_def)
  from C4_response_shape[of full_request "[(str ''0xB'')]" demo_platform "[strong_result]"] m p ok f
  have "status (handler demo_platform full_request) = 200
      \<and> (\<exists>r. [strong_result] = [r] \<and> body (handler demo_platform full_request) = SingleResult r)"
    by simp
  then show ?thesis using m p ok f by simp
qed

lemma handler_failure_aborts:
  assumes "http_method req \<noteq> (str ''OPTIONS'')" and "parse_addresses req = Some addresses"
    and "length addresses \<le> 10" and "a \<in> set addresses" and "getPulse h a = Inl e"
  shows "status (handler h req) = 500"
proof -
  have "Inl e \<in> set (map (getPulse h) addresses)"
    using assms(4,5) by force
  then obtain e' where "Promise_all (map (getPulse h) addresses) = Inl e'"
    unfolding Promise_all_def using collect_Inl by blast
  then show ?thesis
    using assms(1-3) by (simp add: handler_def internal_error_def Let_def)
qed

text \<open>
  Claim C1, on the failing input. For the batch 0xA,0xB where the upstream answers 404 for
  0xA, getBatchPulse turns the failure into an error result for 0xA and keeps the result of
  0xB; the handler, which awaits the bare getPulse promises, answers the whole request with
  HTTP 500.
\<close>

theorem C1_handler_aborts_batch:
  "parse_addresses batch_request = Some [(str ''0xA''), (str ''0xB'')]
   \<and> getPulse demo_platform (str ''0xA'') = Inl (JsError (str ''Dexscreener API error: 404''))
   \<and> getPulse demo_platform (str ''0xB'') = Inr strong_result
   \<and> getBatchPulse demo_platform [(str ''0xA''), (str ''0xB'')] =
       Inr [error_result (str ''0xA'') (JsError (str ''Dexscreener API error: 404'')), strong_result]
   \<and> handler demo_platform batch_request =
       \<lparr>status = 500, headers = cors_headers,
        body = MessageError (str ''Internal error'') (str ''Dexscreener API error: 404'')\<rparr>"
proof -
  have p: "parse_addresses batch_request = Some [(str ''0xA''), (str ''0xB'')]"
    by (simp add: parse_addresses_def batch_request_def trim_def is_space_def str.simps)
  have b: "getBatchPulse demo_platform [(str ''0xA''), (str ''0xB'')] =
       Inr [error_result (str ''0xA'') (JsError (str ''Dexscreener API error: 404'')), strong_result]"
    by (simp add: getBatchPulse_isolated getPulse_0xA getPulse_0xB)
  have h: "handler demo_platform batch_request =
       \<lparr>status = 500, headers = cors_headers,
        body = MessageError (str ''Internal error'') (str ''Dexscreener API error: 404'')\<rparr>"
    by (simp add: handler_def p Promise_all_def getPulse_0xA internal_error_def)
       (simp add: batch_request_def)
  show ?thesis using p b h getPulse_0xA getPulse_0xB by simp
qed

lemma no_parameter_rejected:
  assumes "http_method req \<noteq> (str ''OPTIONS'')"
    and "q_token req = None \<or> q_token req = Some []"
    and "q_tokens req = None \<or> q_tokens req = Some []"
  shows "status (handler h req) = 400"
  using assms by (auto simp: handler_def parse_addresses_def Let_def)

text \<open>
  Claim C5, on the failing input. A tokens parameter whose entries are all empty after
  trimming passes the presence check, parses to the empty address list, and the handler
  answers HTTP 200 with count 0 rather than HTTP 400.
\<close>

theorem C5_blank_tokens_accepted:
  "map trim (split_comma (str '' , '')) = [[], []]
   \<and> parse_addresses blank_request = Some []
   \<and> handler h blank_request =
       \<lparr>status = 200, headers = cors_headers, body = BatchResults 0 []\<rparr>"
proof -
  have t: "map trim (split_comma (str '' , '')) = [[], []]"
    by (simp add: trim_def is_space_def str.simps)
  have p: "parse_addresses blank_request = Some []"
    by (simp add: parse_addresses_def blank_request_def trim_def is_space_def str.simps)
  have "handler h blank_request =
       \<lparr>status = 200, headers = cors_headers, body = BatchResults 0 []\<rparr>"
    by (simp add: handler_def p Promise_all_def) (simp add: blank_request_def)
  with t p show ?thesis by simp
qed

section \<open>The summary line\<close>












text \<open>1150 is rendered from the quotient just below 1.15, hence with the digit 1.\<close>

lemma formatNum_1150: "formatNum h (Num 1150) = str ''1.1K''"
  by (simp add: formatNum_def js_ge_def toFixed_def Let_def binary64_eval)
     (simp add: dec.simps replicate_numeral_unfold str.simps)




end
